theory Spec2Isabelle
  imports Complex_Main "HOL-Library.List_Lexorder" "HOL-Library.Char_ord"
begin

section \<open>The speaker manager of TTS/tts/utils/speakers.py\<close>

text \<open>
  The class \<^verbatim>\<open>SpeakerManager\<close> keeps three data fields that its methods read and
  write after construction: \<^verbatim>\<open>x_vectors\<close>, \<^verbatim>\<open>speaker_ids\<close> and
  \<^verbatim>\<open>clip_ids\<close>. The field \<^verbatim>\<open>speaker_ids\<close> serves two purposes in the source: it
  holds the name-to-id mapping after \<^verbatim>\<open>parse_speakers_from_items\<close> or
  \<^verbatim>\<open>load_ids_file\<close>, and the list of speaker names after
  \<^verbatim>\<open>load_x_vectors_file\<close>. Python is dynamically typed and the loaders store
  whatever \<^verbatim>\<open>json.load\<close> returns, so the fields hold JSON values. Every exception
  the methods can raise is a value of \<open>error\<close>; a method is a function from the
  registry to its result and the registry afterwards.

  The encoder and its audio processor (\<^verbatim>\<open>speaker_encoder\<close>,
  \<^verbatim>\<open>speaker_encoder_ap\<close>) are opaque objects of other modules; where a method
  calls them they appear as a parameter. Strings are ordered as Python orders them,
  character by character (\<open>List_Lexorder\<close> over \<open>Char_ord\<close>).
\<close>

subsection \<open>Python values and exceptions\<close>

datatype error =
    OSError
  | JSONDecodeError
  | AttributeError
  | KeyError string
  | TypeError
  | IndexError
  | ValueError
  | RuntimeError
  | AssertionError string

text \<open>
  What \<^verbatim>\<open>json.load\<close> produces. Python compares \<^verbatim>\<open>1 == 1.0\<close> as equal, so both
  kinds of JSON number are one constructor over the reals (floating-point rounding is
  not modelled). A \<^verbatim>\<open>dict\<close> is the list of its items in insertion order; its keys
  are pairwise distinct.
\<close>

datatype json =
    JNull
  | JBool bool
  | JNum real
  | JStr string
  | JArr "json list"
  | JObj "(string \<times> json) list"

text \<open>\<^verbatim>\<open>v[key]\<close> with a string key.\<close>

fun py_getitem :: "json \<Rightarrow> string \<Rightarrow> error + json" where
  "py_getitem (JObj kvs) key =
     (case map_of kvs key of None \<Rightarrow> Inl (KeyError key) | Some v \<Rightarrow> Inr v)"
| "py_getitem _ key = Inl TypeError"

text \<open>\<^verbatim>\<open>v.values()\<close> and \<^verbatim>\<open>v.keys()\<close>: only a dict has these attributes.\<close>

fun py_values :: "json \<Rightarrow> error + json list" where
  "py_values (JObj kvs) = Inr (map snd kvs)"
| "py_values _ = Inl AttributeError"

fun py_keys :: "json \<Rightarrow> error + string list" where
  "py_keys (JObj kvs) = Inr (map fst kvs)"
| "py_keys _ = Inl AttributeError"

text \<open>\<^verbatim>\<open>len(v)\<close>.\<close>

fun py_len :: "json \<Rightarrow> error + nat" where
  "py_len (JObj kvs) = Inr (length kvs)"
| "py_len (JArr xs) = Inr (length xs)"
| "py_len (JStr s) = Inr (length s)"
| "py_len _ = Inl TypeError"

text \<open>\<^verbatim>\<open>str(k)\<close> for an integer, as an f-string formats it.\<close>

fun str_nat :: "nat \<Rightarrow> string" where
  "str_nat n =
     (if n < 10 then [''0123456789'' ! n]
      else str_nat (n div 10) @ [''0123456789'' ! (n mod 10)])"

declare str_nat.simps [simp del]

definition str_int :: "int \<Rightarrow> string" where
  "str_int k = (if k < 0 then CHR ''-'' # str_nat (nat (- k)) else str_nat (nat k))"

subsection \<open>The registry\<close>

record registry =
  x_vectors :: json
  speaker_ids :: json
  clip_ids :: json

text \<open>The fields as \<^verbatim>\<open>__init__\<close> sets them before any file is loaded.\<close>

definition init_registry :: registry where
  "init_registry = \<lparr>x_vectors = JObj [], speaker_ids = JArr [], clip_ids = JArr []\<rparr>"

subsection \<open>Files\<close>

text \<open>
  A file that can be opened holds text that \<^verbatim>\<open>json.load\<close> either parses to a
  document or rejects. \<^verbatim>\<open>json.dump\<close> followed by \<^verbatim>\<open>json.load\<close> returns an equal
  value for every value of type \<open>json\<close> (string keys, finite numbers), so a written
  file is modelled by the document itself. A path that is \<open>writable\<close> can be opened
  with mode \<^verbatim>\<open>"w"\<close>, and what was written there can be opened for reading.
\<close>

datatype file_content = Document json | Malformed

record filesystem =
  files :: "string \<rightharpoonup> file_content"
  writable :: "string \<Rightarrow> bool"

definition load_json :: "filesystem \<Rightarrow> string \<Rightarrow> error + json" where
  "load_json fs json_file_path =
     (case files fs json_file_path of
        None \<Rightarrow> Inl OSError
      | Some Malformed \<Rightarrow> Inl JSONDecodeError
      | Some (Document d) \<Rightarrow> Inr d)"

definition save_json :: "filesystem \<Rightarrow> string \<Rightarrow> json \<Rightarrow> (error + unit) \<times> filesystem" where
  "save_json fs json_file_path data =
     (if writable fs json_file_path
      then (Inr (), fs\<lparr>files := (files fs)(json_file_path \<mapsto> Document data)\<rparr>)
      else (Inl OSError, fs))"

subsection \<open>Speaker ids from corpus items\<close>

text \<open>
  An item is a list of strings with the speaker name at index 2; \<^verbatim>\<open>item[2]\<close> raises
  IndexError on a shorter item. The set comprehension stops at the first item that
  raises.
\<close>

definition item_speaker :: "string list \<Rightarrow> error + string" where
  "item_speaker item = (if 2 < length item then Inr (item ! 2) else Inl IndexError)"

fun item_speakers :: "string list list \<Rightarrow> error + string set" where
  "item_speakers [] = Inr {}"
| "item_speakers (item # items) =
     (case item_speaker item of
        Inl e \<Rightarrow> Inl e
      | Inr name \<Rightarrow>
          (case item_speakers items of Inl e \<Rightarrow> Inl e | Inr names \<Rightarrow> Inr (insert name names)))"

text \<open>
  \<^verbatim>\<open>{name: i for i, name in enumerate(speakers)}\<close>; ids are Python integers.
\<close>

definition id_dict :: "string list \<Rightarrow> json" where
  "id_dict speakers = JObj (map (\<lambda>(i, name). (name, JNum (real i))) (enumerate 0 speakers))"

definition parse_speakers_from_items ::
  "registry \<Rightarrow> string list list \<Rightarrow> (error + json \<times> nat) \<times> registry" where
  "parse_speakers_from_items self items =
     (case item_speakers items of
        Inl e \<Rightarrow> (Inl e, self)
      | Inr names \<Rightarrow>
          (let speakers = sorted_list_of_set names;
               self' = self\<lparr>speaker_ids := id_dict speakers\<rparr>
           in case py_len (speaker_ids self') of
                Inl e \<Rightarrow> (Inl e, self')
              | Inr num_speakers \<Rightarrow> (Inr (speaker_ids self', num_speakers), self')))"

subsection \<open>Properties\<close>

definition num_speakers :: "registry \<Rightarrow> (error + nat) \<times> registry" where
  "num_speakers self = (py_len (speaker_ids self), self)"

text \<open>
  \<^verbatim>\<open>len(self.x_vectors[list(self.x_vectors.keys())[0]]["embedding"])\<close>: indexing the
  empty key list raises IndexError.
\<close>

definition x_vector_dim :: "registry \<Rightarrow> (error + nat) \<times> registry" where
  "x_vector_dim self =
     (case py_keys (x_vectors self) of
        Inl e \<Rightarrow> (Inl e, self)
      | Inr ks \<Rightarrow>
          (case ks of
             [] \<Rightarrow> (Inl IndexError, self)
           | k # _ \<Rightarrow>
               (case py_getitem (x_vectors self) k of
                  Inl e \<Rightarrow> (Inl e, self)
                | Inr entry \<Rightarrow>
                    (case py_getitem entry ''embedding'' of
                       Inl e \<Rightarrow> (Inl e, self)
                     | Inr emb \<Rightarrow> (py_len emb, self)))))"

subsection \<open>Saving and loading\<close>

definition save_ids_file ::
  "filesystem \<Rightarrow> registry \<Rightarrow> string \<Rightarrow> (error + unit) \<times> filesystem" where
  "save_ids_file fs self file_path = save_json fs file_path (speaker_ids self)"

definition load_ids_file ::
  "filesystem \<Rightarrow> registry \<Rightarrow> string \<Rightarrow> (error + unit) \<times> registry" where
  "load_ids_file fs self file_path =
     (case load_json fs file_path of
        Inl e \<Rightarrow> (Inl e, self)
      | Inr doc \<Rightarrow> (Inr (), self\<lparr>speaker_ids := doc\<rparr>))"

definition save_x_vectors_file ::
  "filesystem \<Rightarrow> registry \<Rightarrow> string \<Rightarrow> (error + unit) \<times> filesystem" where
  "save_x_vectors_file fs self file_path = save_json fs file_path (x_vectors self)"

text \<open>
  \<^verbatim>\<open>load_x_vectors_file\<close> calls two builtins whose outcome is not fixed by the
  source: \<^verbatim>\<open>sorted\<close> on the \<^verbatim>\<open>name\<close> values of the document, which may be any
  JSON values, and \<^verbatim>\<open>list(set(...))\<close>, whose order is the iteration order of a
  hash set (for strings it changes with the interpreter's hash seed). Both are fields
  of an \<open>interpreter\<close>; each takes the sequence it is given and may raise.
\<close>

record interpreter =
  py_sorted :: "json list \<Rightarrow> error + json list"
  py_list_set :: "json list \<Rightarrow> error + json list"

text \<open>The generator \<^verbatim>\<open>x["name"] for x in self.x_vectors.values()\<close>.\<close>

fun entry_names :: "json list \<Rightarrow> error + json list" where
  "entry_names [] = Inr []"
| "entry_names (x # xs) =
     (case py_getitem x ''name'' of
        Inl e \<Rightarrow> Inl e
      | Inr name \<Rightarrow>
          (case entry_names xs of Inl e \<Rightarrow> Inl e | Inr names \<Rightarrow> Inr (name # names)))"

text \<open>\<^verbatim>\<open>list(set(sorted(...)))\<close>: sorted first, then put into a set, then listed.\<close>

definition list_set_sorted :: "interpreter \<Rightarrow> json list \<Rightarrow> error + json list" where
  "list_set_sorted py xs =
     (case py_sorted py xs of Inl e \<Rightarrow> Inl e | Inr ys \<Rightarrow> py_list_set py ys)"

definition speaker_index :: "interpreter \<Rightarrow> json \<Rightarrow> error + json list" where
  "speaker_index py table =
     (case py_values table of
        Inl e \<Rightarrow> Inl e
      | Inr entries \<Rightarrow>
          (case entry_names entries of
             Inl e \<Rightarrow> Inl e
           | Inr names \<Rightarrow> list_set_sorted py names))"

definition clip_index :: "interpreter \<Rightarrow> json \<Rightarrow> error + json list" where
  "clip_index py table =
     (case py_keys table of
        Inl e \<Rightarrow> Inl e
      | Inr clip_names \<Rightarrow> list_set_sorted py (map JStr clip_names))"

text \<open>
  The three assignments of \<^verbatim>\<open>load_x_vectors_file\<close> in order; an exception leaves
  the registry as the assignments before it made it.
\<close>

definition load_x_vectors_file ::
  "interpreter \<Rightarrow> filesystem \<Rightarrow> registry \<Rightarrow> string \<Rightarrow> (error + unit) \<times> registry" where
  "load_x_vectors_file py fs self file_path =
     (case load_json fs file_path of
        Inl e \<Rightarrow> (Inl e, self)
      | Inr doc \<Rightarrow>
          (let self1 = self\<lparr>x_vectors := doc\<rparr>
           in case speaker_index py (x_vectors self1) of
                Inl e \<Rightarrow> (Inl e, self1)
              | Inr names \<Rightarrow>
                  (let self2 = self1\<lparr>speaker_ids := JArr names\<rparr>
                   in case clip_index py (x_vectors self2) of
                        Inl e \<Rightarrow> (Inl e, self2)
                      | Inr clips \<Rightarrow> (Inr (), self2\<lparr>clip_ids := JArr clips\<rparr>))))"

text \<open>
  What the interpreter guarantees on strings: \<^verbatim>\<open>sorted\<close> orders them by code point,
  and listing a set yields each element once, in some order.
\<close>

definition interpreter_ok :: "interpreter \<Rightarrow> bool" where
  "interpreter_ok py \<longleftrightarrow>
     (\<forall>xs. py_sorted py (map JStr xs) = Inr (map JStr (sort xs))) \<and>
     (\<forall>xs. \<exists>ys. py_list_set py (map JStr xs) = Inr (map JStr ys) \<and>
        distinct ys \<and> set ys = set xs)"

text \<open>
  A concrete interpreter for evaluation. \<open>cpython order\<close> sorts lists of strings and
  lists a set of strings in the order \<open>order\<close> gives for the insertion sequence; on
  a list with an element that is not a string both builtins answer TypeError here
  (Python raises it for most such lists, not for all, for instance not for a list
  of numbers: a table with a name that is not a string is outside what \<open>cpython\<close>
  describes).
\<close>

fun str_of :: "json \<Rightarrow> string option" where
  "str_of (JStr s) = Some s"
| "str_of _ = None"

definition on_strings :: "(string list \<Rightarrow> string list) \<Rightarrow> json list \<Rightarrow> error + json list" where
  "on_strings f xs =
     (if list_all (\<lambda>x. str_of x \<noteq> None) xs
      then Inr (map JStr (f (map (the \<circ> str_of) xs)))
      else Inl TypeError)"

definition cpython :: "(string list \<Rightarrow> string list) \<Rightarrow> interpreter" where
  "cpython order = \<lparr>py_sorted = on_strings sort, py_list_set = on_strings order\<rparr>"

text \<open>
  With \<^verbatim>\<open>PYTHONHASHSEED=0\<close> CPython 3.11 lists \<^verbatim>\<open>set(['A', 'B'])\<close> as
  \<^verbatim>\<open>['B', 'A']\<close> and \<^verbatim>\<open>set(['c1.wav', 'c2.wav'])\<close> as \<^verbatim>\<open>['c2.wav', 'c1.wav']\<close>;
  \<open>seed0\<close> is that order on two-element sets.
\<close>

definition seed0 :: "string list \<Rightarrow> string list" where
  "seed0 xs = rev (remdups xs)"

subsection \<open>Queries\<close>

definition get_x_vector_by_clip :: "registry \<Rightarrow> string \<Rightarrow> (error + json) \<times> registry" where
  "get_x_vector_by_clip self clip_idx =
     (case py_getitem (x_vectors self) clip_idx of
        Inl e \<Rightarrow> (Inl e, self)
      | Inr entry \<Rightarrow> (py_getitem entry ''embedding'', self))"

text \<open>
  \<^verbatim>\<open>[x["embedding"] for x in self.x_vectors.values() if x["name"] == speaker_idx]\<close>:
  the condition is evaluated for every entry, the embedding only where it holds.
\<close>

fun embeddings_of :: "string \<Rightarrow> json list \<Rightarrow> error + json list" where
  "embeddings_of speaker_idx [] = Inr []"
| "embeddings_of speaker_idx (x # xs) =
     (case py_getitem x ''name'' of
        Inl e \<Rightarrow> Inl e
      | Inr name \<Rightarrow>
          (if name = JStr speaker_idx
           then (case py_getitem x ''embedding'' of
                   Inl e \<Rightarrow> Inl e
                 | Inr emb \<Rightarrow>
                     (case embeddings_of speaker_idx xs of
                        Inl e \<Rightarrow> Inl e
                      | Inr embs \<Rightarrow> Inr (emb # embs)))
           else embeddings_of speaker_idx xs))"

definition get_x_vectors_by_speaker ::
  "registry \<Rightarrow> string \<Rightarrow> (error + json list) \<times> registry" where
  "get_x_vectors_by_speaker self speaker_idx =
     (case py_values (x_vectors self) of
        Inl e \<Rightarrow> (Inl e, self)
      | Inr entries \<Rightarrow> (embeddings_of speaker_idx entries, self))"

definition get_speakers :: "registry \<Rightarrow> json \<times> registry" where
  "get_speakers self = (speaker_ids self, self)"

definition get_clips :: "registry \<Rightarrow> (error + string list) \<times> registry" where
  "get_clips self =
     (case py_keys (x_vectors self) of
        Inl e \<Rightarrow> (Inl e, self)
      | Inr clip_names \<Rightarrow> (Inr (sort clip_names), self))"

subsection \<open>The mean x-vector of a speaker\<close>

text \<open>
  \<^verbatim>\<open>np.stack(vs).mean(0)\<close> on embeddings that are flat arrays of numbers, the shape
  the x-vector document gives them: an empty sequence and rows of different length
  raise ValueError, otherwise the rows are added up and divided by their count. An
  embedding of any other shape is answered with TypeError here (numpy raises it for
  strings, null and objects; scalar or nested numeric embeddings, which numpy
  accepts, are outside this description).
\<close>

fun num_of :: "json \<Rightarrow> real option" where
  "num_of (JNum r) = Some r"
| "num_of _ = None"

fun as_vector :: "json \<Rightarrow> real list option" where
  "as_vector (JArr xs) =
     (if list_all (\<lambda>x. num_of x \<noteq> None) xs then Some (map (the \<circ> num_of) xs) else None)"
| "as_vector _ = None"

definition vec_add :: "real list \<Rightarrow> real list \<Rightarrow> real list" where
  "vec_add a b = map2 (+) a b"

definition np_stack_mean :: "json list \<Rightarrow> error + real list" where
  "np_stack_mean vs =
     (if vs = [] then Inl ValueError
      else if \<not> list_all (\<lambda>v. as_vector v \<noteq> None) vs then Inl TypeError
      else
        (let rows = map (the \<circ> as_vector) vs
         in if \<not> list_all (\<lambda>r. length r = length (hd rows)) rows then Inl ValueError
            else Inr (map (\<lambda>x. x / real (length rows)) (foldl vec_add (hd rows) (tl rows)))))"

text \<open>
  \<^verbatim>\<open>xs[:k]\<close>: a negative \<open>k\<close> counts from the end.
\<close>

definition slice_to :: "'a list \<Rightarrow> int \<Rightarrow> 'a list" where
  "slice_to xs k = (if k < 0 then take (nat (int (length xs) + k)) xs else take (nat k) xs)"

text \<open>
  \<^verbatim>\<open>random.choices(population, k=k)\<close> picks \<open>k\<close> indices below the length of the
  population, with replacement; \<open>rng i\<close> is the generator's \<open>i\<close>-th draw. No draw is
  made for \<open>k \<le> 0\<close>; indexing an empty population raises IndexError.
\<close>

definition random_choices :: "(nat \<Rightarrow> nat) \<Rightarrow> 'a list \<Rightarrow> int \<Rightarrow> error + 'a list" where
  "random_choices rng population k =
     (if k \<le> 0 then Inr []
      else if population = [] then Inl IndexError
      else Inr (map (\<lambda>i. population ! (rng i mod length population)) [0..<nat k]))"

definition shortfall_message :: "string \<Rightarrow> int \<Rightarrow> string" where
  "shortfall_message speaker_idx num_samples =
     '' [!] speaker '' @ speaker_idx @ '' has number of samples < '' @ str_int num_samples"

definition get_mean_x_vector ::
  "(nat \<Rightarrow> nat) \<Rightarrow> registry \<Rightarrow> string \<Rightarrow> int option \<Rightarrow> bool \<Rightarrow> (error + real list) \<times> registry" where
  "get_mean_x_vector rng self speaker_idx num_samples randomize =
     (case get_x_vectors_by_speaker self speaker_idx of
        (Inl e, self') \<Rightarrow> (Inl e, self')
      | (Inr x_vecs, self') \<Rightarrow>
          (case num_samples of
             None \<Rightarrow> (np_stack_mean x_vecs, self')
           | Some k \<Rightarrow>
               (if \<not> int (length x_vecs) \<ge> k
                then (Inl (AssertionError (shortfall_message speaker_idx k)), self')
                else if randomize
                then (case random_choices rng x_vecs k of
                        Inl e \<Rightarrow> (Inl e, self')
                      | Inr chosen \<Rightarrow> (np_stack_mean chosen, self'))
                else (np_stack_mean (slice_to x_vecs k), self'))))"

subsection \<open>Embeddings computed from audio clips\<close>

text \<open>
  The inner function \<^verbatim>\<open>_compute\<close> (load the waveform, mel spectrogram, encoder) is a
  parameter \<open>compute\<close>: it gives the single row of the \<open>1 \<times> D\<close> tensor the encoder
  returns for a path, a fresh tensor at every call, or raises.
  \<^verbatim>\<open>x_vectors += x_vector\<close> adds in place, so the right side is broadcast to the
  shape of the left: a row of the same length is added element by element, a row of
  length one is added to every element, any other row raises RuntimeError.
\<close>

datatype wav_arg = Path string | Paths "string list"

definition tensor_iadd :: "real list \<Rightarrow> real list \<Rightarrow> error + real list" where
  "tensor_iadd a b =
     (if length b = length a then Inr (vec_add a b)
      else if length b = 1 then Inr (map (\<lambda>x. x + hd b) a)
      else Inl RuntimeError)"

text \<open>The loop over \<^verbatim>\<open>wav_file\<close>; the accumulator starts as \<^verbatim>\<open>None\<close>.\<close>

fun sum_clips ::
  "(string \<Rightarrow> error + real list) \<Rightarrow> string list \<Rightarrow> real list option \<Rightarrow> error + real list option" where
  "sum_clips compute [] x_vecs = Inr x_vecs"
| "sum_clips compute (wav # wavs) x_vecs =
     (case compute wav of
        Inl e \<Rightarrow> Inl e
      | Inr x_vector \<Rightarrow>
          (case x_vecs of
             None \<Rightarrow> sum_clips compute wavs (Some x_vector)
           | Some acc \<Rightarrow>
               (case tensor_iadd acc x_vector of
                  Inl e \<Rightarrow> Inl e
                | Inr acc' \<Rightarrow> sum_clips compute wavs (Some acc'))))"

text \<open>
  For the empty list the accumulator is still \<^verbatim>\<open>None\<close> and \<^verbatim>\<open>None / 0\<close> raises
  TypeError.
\<close>

fun compute_x_vector_from_clip ::
  "(string \<Rightarrow> error + real list) \<Rightarrow> wav_arg \<Rightarrow> error + real list" where
  "compute_x_vector_from_clip compute (Paths wav_file) =
     (case sum_clips compute wav_file None of
        Inl e \<Rightarrow> Inl e
      | Inr None \<Rightarrow> Inl TypeError
      | Inr (Some x_vecs) \<Rightarrow> Inr (map (\<lambda>x. x / real (length wav_file)) x_vecs))"
| "compute_x_vector_from_clip compute (Path wav_file) = compute wav_file"

subsection \<open>Notions the properties are stated with\<close>

text \<open>The speaker names a list of items mentions (each item has an entry at index 2).\<close>

definition speaker_names :: "string list list \<Rightarrow> string set" where
  "speaker_names items = (\<lambda>item. item ! 2) ` set items"

text \<open>The number of distinct ids that occur as values of an id mapping.\<close>

fun count_distinct_ids :: "json \<Rightarrow> nat" where
  "count_distinct_ids (JObj kvs) = card (set (map snd kvs))"
| "count_distinct_ids _ = 0"

subsection \<open>Example data\<close>

text \<open>
  A table with two clips of speaker \<open>A\<close> and one of speaker \<open>B\<close>, and a registry
  that holds it.
\<close>

definition example_table :: json where
  "example_table = JObj
     [(''c1.wav'', JObj [(''name'', JStr ''A''), (''embedding'', JArr [JNum 1, JNum 0])]),
      (''c2.wav'', JObj [(''name'', JStr ''A''), (''embedding'', JArr [JNum 3, JNum 0])]),
      (''c3.wav'', JObj [(''name'', JStr ''B''), (''embedding'', JArr [JNum 5, JNum 7])])]"

definition example_registry :: registry where
  "example_registry = \<lparr>x_vectors = example_table, speaker_ids = JArr [], clip_ids = JArr []\<rparr>"

text \<open>Corpus items: text, audio file, speaker name.\<close>

definition example_items :: "string list list" where
  "example_items =
     [[''hello'', ''c1.wav'', ''spk_02''],
      [''world'', ''c2.wav'', ''spk_01''],
      [''again'', ''c3.wav'', ''spk_02'']]"

text \<open>
  Documents on disk: an x-vector table of two speakers, a table whose only entry has
  no \<^verbatim>\<open>name\<close>, an id mapping, an id mapping in which two names share an id, and a
  file that is not JSON.
\<close>

definition two_speaker_table :: json where
  "two_speaker_table = JObj
     [(''c1.wav'', JObj [(''name'', JStr ''A''), (''embedding'', JArr [JNum 1])]),
      (''c2.wav'', JObj [(''name'', JStr ''B''), (''embedding'', JArr [JNum 2])])]"

definition nameless_table :: json where
  "nameless_table = JObj [(''c1.wav'', JObj [(''embedding'', JArr [JNum 1])])]"

definition id_mapping :: json where
  "id_mapping = JObj [(''spk_01'', JNum 0), (''spk_02'', JNum 1)]"

definition shared_id_mapping :: json where
  "shared_id_mapping = JObj [(''anna'', JNum 0), (''ben'', JNum 0)]"

definition example_fs :: filesystem where
  "example_fs =
     \<lparr>files = [''x_vectors.json'' \<mapsto> Document two_speaker_table,
               ''nameless.json'' \<mapsto> Document nameless_table,
               ''ids.json'' \<mapsto> Document id_mapping,
               ''speakers.json'' \<mapsto> Document shared_id_mapping,
               ''broken.json'' \<mapsto> Malformed],
      writable = (\<lambda>path. True)\<rparr>"

text \<open>The registry after the two-speaker table has been loaded under hash seed 0.\<close>

definition loaded_registry :: registry where
  "loaded_registry =
     snd (load_x_vectors_file (cpython seed0) example_fs init_registry ''x_vectors.json'')"

text \<open>An encoder that knows two clips.\<close>

definition example_encoder :: "string \<Rightarrow> error + real list" where
  "example_encoder wav_file =
     (if wav_file = ''a.wav'' then Inr [1, 4]
      else if wav_file = ''b.wav'' then Inr [3, 0]
      else Inl OSError)"

section \<open>Speaker ids from corpus items\<close>

lemma item_speakers_names:
  "\<forall>item\<in>set items. 2 < length item \<Longrightarrow> item_speakers items = Inr (speaker_names items)"
  by (induction items) (simp_all add: speaker_names_def item_speaker_def)

lemma map_swap_zip:
  "map (\<lambda>(i, name). (name, f i)) (zip xs ys) = zip ys (map f xs)"
proof (induction xs arbitrary: ys)
  case Nil
  then show ?case by simp
next
  case (Cons x xs)
  then show ?case by (cases ys) simp_all
qed

lemma id_dict_zip:
  "id_dict S = JObj (zip S (map (\<lambda>i. JNum (real i)) [0..<length S]))"
  by (simp add: id_dict_def enumerate_eq_zip map_swap_zip)

lemma id_dict_keys: "py_keys (id_dict S) = Inr S"
  by (simp add: id_dict_zip)

lemma id_dict_values: "py_values (id_dict S) = Inr (map (\<lambda>i. JNum (real i)) [0..<length S])"
  by (simp add: id_dict_zip)

lemma id_dict_len: "py_len (id_dict S) = Inr (length S)"
  by (simp add: id_dict_zip)

lemma id_dict_lookup:
  assumes "distinct S" and "i < length S"
  shows "py_getitem (id_dict S) (S ! i) = Inr (JNum (real i))"
proof -
  have "map_of (zip S (map (\<lambda>i. JNum (real i)) [0..<length S])) (S ! i) =
      Some (map (\<lambda>i. JNum (real i)) [0..<length S] ! i)"
    using assms by (intro map_of_zip_nth) simp_all
  then show ?thesis
    using assms(2) by (simp add: id_dict_zip)
qed

text \<open>In a sorted list without duplicates the index of an element counts the smaller ones.\<close>

lemma rank_in_sorted:
  fixes S :: "'a::linorder list"
  assumes "sorted S" and "distinct S" and "i < length S"
  shows "card {n \<in> set S. n < S ! i} = i"
proof -
  have strict: "S ! j < S ! i" if "j < i" for j
  proof -
    have "S ! j \<le> S ! i"
      using assms(1,3) that by (simp add: sorted_nth_mono)
    moreover have "S ! j \<noteq> S ! i"
      using assms(2,3) that by (simp add: nth_eq_iff_index_eq)
    ultimately show ?thesis by simp
  qed
  have "{n \<in> set S. n < S ! i} = set (take i S)"
  proof (intro set_eqI iffI)
    fix n assume "n \<in> {n \<in> set S. n < S ! i}"
    then obtain j where j: "j < length S" "n = S ! j" "S ! j < S ! i"
      by (auto simp: in_set_conv_nth)
    have "j < i"
    proof (rule ccontr)
      assume "\<not> j < i"
      then have "S ! i \<le> S ! j"
        using assms(1) j(1) by (simp add: sorted_nth_mono)
      with j(3) show False by simp
    qed
    then show "n \<in> set (take i S)"
      using j(1,2) assms(3) by (auto simp: in_set_conv_nth)
  next
    fix n assume "n \<in> set (take i S)"
    then obtain j where "j < i" "n = S ! j"
      using assms(3) by (auto simp: in_set_conv_nth)
    then show "n \<in> {n \<in> set S. n < S ! i}"
      using strict [of j] assms(3) by simp
  qed
  moreover have "card (set (take i S)) = i"
    using assms(2,3) by (simp add: distinct_card)
  ultimately show ?thesis by simp
qed

lemma dict_of_keys_values:
  assumes "py_keys d = Inr ks" and "py_values d = Inr vs"
  shows "d = JObj (zip ks vs)"
proof (cases d)
  case (JObj kvs)
  with assms have "map fst kvs = ks" "map snd kvs = vs" by simp_all
  then have "zip ks vs = kvs" by (auto simp: zip_map_fst_snd)
  with JObj show ?thesis by simp
qed (use assms in simp_all)

text \<open>
  Claim C3. For items that each have a speaker name at index 2,
  \<^verbatim>\<open>parse_speakers_from_items\<close> returns a mapping and the number \<open>N\<close> of distinct
  names, and stores the mapping in the registry. The keys of the mapping are the
  distinct names in ascending order, its values are \<open>0, ..., N - 1\<close>, and each name is
  mapped to its rank, the number of distinct names below it. Any other item list with
  the same set of names gives the same result, whatever its order and multiplicities;
  the empty list gives the empty mapping.
\<close>

theorem parse_speakers_from_items_ranks:
  assumes "\<forall>item\<in>set items. 2 < length item"
  shows "\<exists>ids. parse_speakers_from_items self items =
             (Inr (ids, card (speaker_names items)), self\<lparr>speaker_ids := ids\<rparr>) \<and>
           py_keys ids = Inr (sorted_list_of_set (speaker_names items)) \<and>
           py_values ids = Inr (map (\<lambda>i. JNum (real i)) [0..<card (speaker_names items)]) \<and>
           (\<forall>name\<in>speaker_names items.
              py_getitem ids name =
                Inr (JNum (real (card {n \<in> speaker_names items. n < name})))) \<and>
           (\<forall>items'. (\<forall>item\<in>set items'. 2 < length item) \<and>
                speaker_names items' = speaker_names items \<longrightarrow>
              fst (parse_speakers_from_items self items') =
                Inr (ids, card (speaker_names items))) \<and>
           (items = [] \<longrightarrow> ids = JObj [])"
proof -
  define names where "names = speaker_names items"
  define S where "S = sorted_list_of_set names"
  have fin: "finite names"
    by (simp add: names_def speaker_names_def)
  have S: "sorted S" "distinct S" "set S = names" "length S = card names"
    using fin by (simp_all add: S_def)
  have run: "parse_speakers_from_items self items' =
      (Inr (id_dict S, card names), self\<lparr>speaker_ids := id_dict S\<rparr>)"
    if "\<forall>item\<in>set items'. 2 < length item" "speaker_names items' = names" for items'
    using item_speakers_names [OF that(1)] that(2) S(4)
    by (simp add: parse_speakers_from_items_def id_dict_len S_def Let_def)
  have look: "py_getitem (id_dict S) name = Inr (JNum (real (card {n \<in> names. n < name})))"
    if "name \<in> names" for name
  proof -
    from that S(3) obtain i where i: "i < length S" "name = S ! i"
      by (auto simp: in_set_conv_nth)
    have "card {n \<in> set S. n < S ! i} = i"
      using S(1,2) i(1) by (rule rank_in_sorted)
    then show ?thesis
      using id_dict_lookup [OF S(2) i(1)] i(2) S(3) by simp
  qed
  have empty: "id_dict S = JObj []" if "items = []"
    using that by (simp add: S_def names_def speaker_names_def id_dict_zip)
  show ?thesis
    using run [OF assms] run look empty id_dict_keys [of S] id_dict_values [of S] S(4)
    unfolding names_def [symmetric] S_def [symmetric]
    by (intro exI [of _ "id_dict S"]) simp
qed

theorem parse_speakers_from_items_ranks_witness:
  "parse_speakers_from_items init_registry example_items =
     (Inr (JObj [(''spk_01'', JNum 0), (''spk_02'', JNum 1)], 2),
      init_registry\<lparr>speaker_ids := JObj [(''spk_01'', JNum 0), (''spk_02'', JNum 1)]\<rparr>) \<and>
   fst (parse_speakers_from_items init_registry (rev example_items)) =
     Inr (JObj [(''spk_01'', JNum 0), (''spk_02'', JNum 1)], 2)"
proof -
  have len: "\<forall>item\<in>set example_items. 2 < length item"
    by (simp add: example_items_def)
  have len': "\<forall>item\<in>set (rev example_items). 2 < length item"
    by (simp add: example_items_def)
  have same: "speaker_names (rev example_items) = speaker_names example_items"
    by (simp add: speaker_names_def)
  have names: "sorted_list_of_set (speaker_names example_items) = [''spk_01'', ''spk_02'']"
    by code_simp
  have count: "card (speaker_names example_items) = 2"
    by code_simp
  from parse_speakers_from_items_ranks [OF len, of init_registry] obtain ids where
    ids: "parse_speakers_from_items init_registry example_items =
            (Inr (ids, card (speaker_names example_items)), init_registry\<lparr>speaker_ids := ids\<rparr>)"
         "py_keys ids = Inr (sorted_list_of_set (speaker_names example_items))"
         "py_values ids =
            Inr (map (\<lambda>i. JNum (real i)) [0..<card (speaker_names example_items)])"
         "\<forall>items'. (\<forall>item\<in>set items'. 2 < length item) \<and>
              speaker_names items' = speaker_names example_items \<longrightarrow>
            fst (parse_speakers_from_items init_registry items') =
              Inr (ids, card (speaker_names example_items))"
    by blast
  have "ids = JObj (zip [''spk_01'', ''spk_02''] (map (\<lambda>i. JNum (real i)) [0..<2]))"
    using ids(2,3) unfolding names count by (rule dict_of_keys_values)
  then have "ids = JObj [(''spk_01'', JNum 0), (''spk_02'', JNum 1)]"
    by (simp add: upt_rec)
  with ids(1) ids(4) [rule_format, of "rev example_items"] len' same count
  show ?thesis by simp
qed

section \<open>The number of speakers\<close>

lemma count_distinct_ids_id_dict: "count_distinct_ids (id_dict S) = length S"
proof -
  have "distinct (map (\<lambda>i. JNum (real i)) [0..<length S])"
    by (simp add: distinct_map inj_on_def)
  from distinct_card [OF this] show ?thesis
    by (simp add: id_dict_zip)
qed

text \<open>
  Claim C9 as stated fails: \<^verbatim>\<open>load_ids_file\<close> accepts a mapping in which two names
  share an id, and \<^verbatim>\<open>num_speakers\<close> then counts two speakers where one distinct id
  occurs.
\<close>

theorem num_speakers_shared_id_counterexample:
  "fst (load_ids_file example_fs init_registry ''speakers.json'') = Inr () \<and>
   fst (num_speakers (snd (load_ids_file example_fs init_registry ''speakers.json''))) = Inr 2 \<and>
   count_distinct_ids
     (speaker_ids (snd (load_ids_file example_fs init_registry ''speakers.json''))) = 1"
  by (simp add: load_ids_file_def load_json_def example_fs_def shared_id_mapping_def
      num_speakers_def)

text \<open>
  Claim C9, amended. After \<^verbatim>\<open>load_ids_file\<close> has loaded a mapping,
  \<^verbatim>\<open>num_speakers\<close> is the number of names in it, which is the number of distinct
  ids when no two names share an id; after \<^verbatim>\<open>parse_speakers_from_items\<close> it is the
  number of distinct ids of the mapping built. Neither depends on the x-vector table.
\<close>

theorem num_speakers_counts_names:
  "(fst (load_ids_file fs self path) = Inr () \<and>
      speaker_ids (snd (load_ids_file fs self path)) = JObj kvs \<longrightarrow>
      fst (num_speakers ((snd (load_ids_file fs self path))\<lparr>x_vectors := table\<rparr>)) =
        Inr (length kvs) \<and>
      (distinct (map snd kvs) \<longrightarrow> length kvs = count_distinct_ids (JObj kvs))) \<and>
   ((\<forall>item\<in>set items. 2 < length item) \<longrightarrow>
      fst (num_speakers ((snd (parse_speakers_from_items self items))\<lparr>x_vectors := table\<rparr>)) =
        Inr (count_distinct_ids (speaker_ids (snd (parse_speakers_from_items self items)))))"
proof -
  have loaded: "fst (num_speakers ((snd (load_ids_file fs self path))\<lparr>x_vectors := table\<rparr>)) =
      Inr (length kvs)"
    if "speaker_ids (snd (load_ids_file fs self path)) = JObj kvs"
    using that by (simp add: num_speakers_def)
  have inj: "length kvs = count_distinct_ids (JObj kvs)" if "distinct (map snd kvs)"
    using distinct_card [OF that] by simp
  have parsed: "fst (num_speakers ((snd (parse_speakers_from_items self items))
        \<lparr>x_vectors := table\<rparr>)) =
      Inr (count_distinct_ids (speaker_ids (snd (parse_speakers_from_items self items))))"
    if "\<forall>item\<in>set items. 2 < length item"
  proof -
    define S where "S = sorted_list_of_set (speaker_names items)"
    have "snd (parse_speakers_from_items self items) = self\<lparr>speaker_ids := id_dict S\<rparr>"
      using item_speakers_names [OF that]
      by (simp add: parse_speakers_from_items_def id_dict_len S_def Let_def)
    then show ?thesis
      by (simp add: num_speakers_def id_dict_len count_distinct_ids_id_dict)
  qed
  show ?thesis
    using loaded inj parsed by blast
qed

theorem num_speakers_counts_names_witness:
  "fst (num_speakers (snd (load_ids_file example_fs example_registry ''speakers.json''))) =
     Inr 2 \<and>
   fst (num_speakers (snd (load_ids_file example_fs example_registry ''ids.json''))) = Inr 2 \<and>
   count_distinct_ids (JObj [(''spk_01'', JNum 0), (''spk_02'', JNum 1)]) = 2 \<and>
   fst (num_speakers (snd (parse_speakers_from_items example_registry example_items))) =
     Inr (count_distinct_ids
       (speaker_ids (snd (parse_speakers_from_items example_registry example_items))))"
proof -
  let ?a = "snd (load_ids_file example_fs example_registry ''speakers.json'')"
  let ?b = "snd (load_ids_file example_fs example_registry ''ids.json'')"
  let ?c = "snd (parse_speakers_from_items example_registry example_items)"
  have a: "fst (load_ids_file example_fs example_registry ''speakers.json'') = Inr ()"
    "speaker_ids ?a = JObj [(''anna'', JNum 0), (''ben'', JNum 0)]"
    by (simp_all add: load_ids_file_def load_json_def example_fs_def shared_id_mapping_def)
  have b: "fst (load_ids_file example_fs example_registry ''ids.json'') = Inr ()"
    "speaker_ids ?b = JObj [(''spk_01'', JNum 0), (''spk_02'', JNum 1)]"
    by (simp_all add: load_ids_file_def load_json_def example_fs_def id_mapping_def)
  have inj: "distinct (map snd [(''spk_01'', JNum 0), (''spk_02'', JNum 1)])"
    by simp
  have len: "\<forall>item\<in>set example_items. 2 < length item"
    by (simp add: example_items_def)
  have same: "?a\<lparr>x_vectors := x_vectors ?a\<rparr> = ?a" "?b\<lparr>x_vectors := x_vectors ?b\<rparr> = ?b"
    "?c\<lparr>x_vectors := x_vectors ?c\<rparr> = ?c"
    by simp_all
  from num_speakers_counts_names
    [of example_fs example_registry "''speakers.json''" _ "x_vectors ?a"] a same(1)
  have "fst (num_speakers ?a) = Inr 2" by simp
  moreover
  from num_speakers_counts_names
    [of example_fs example_registry "''ids.json''" _ "x_vectors ?b"] b inj same(2)
  have "fst (num_speakers ?b) = Inr 2"
    "count_distinct_ids (JObj [(''spk_01'', JNum 0), (''spk_02'', JNum 1)]) = 2"
    by simp_all
  moreover
  from num_speakers_counts_names
    [where self = example_registry and items = example_items and table = "x_vectors ?c"]
    len same(3)
  have "fst (num_speakers ?c) = Inr (count_distinct_ids (speaker_ids ?c))"
    by simp
  ultimately show ?thesis by simp
qed

section \<open>Loading and saving\<close>

subsection \<open>The example interpreter meets the contract\<close>

lemma on_strings_strs: "on_strings f (map JStr xs) = Inr (map JStr (f xs))"
proof -
  have "list_all (\<lambda>x. str_of x \<noteq> None) (map JStr xs)"
    by (simp add: list_all_iff)
  moreover have "map (the \<circ> str_of) (map JStr xs) = xs"
    by (simp add: comp_def)
  ultimately show ?thesis
    by (simp add: on_strings_def)
qed

lemma cpython_ok:
  assumes "\<forall>xs. distinct (order xs) \<and> set (order xs) = set xs"
  shows "interpreter_ok (cpython order)"
proof -
  have "\<exists>ys. py_list_set (cpython order) (map JStr xs) = Inr (map JStr ys) \<and>
      distinct ys \<and> set ys = set xs" for xs
    using assms by (intro exI [of _ "order xs"]) (simp add: cpython_def on_strings_strs)
  moreover have "py_sorted (cpython order) (map JStr xs) = Inr (map JStr (sort xs))" for xs
    by (simp add: cpython_def on_strings_strs)
  ultimately show ?thesis
    unfolding interpreter_ok_def by blast
qed

lemma cpython_seed0_ok: "interpreter_ok (cpython seed0)"
  by (rule cpython_ok) (simp add: seed0_def)

subsection \<open>A load that fails\<close>

text \<open>
  Claim C2 as stated fails: \<^verbatim>\<open>load_x_vectors_file\<close> assigns the parsed document to
  \<^verbatim>\<open>x_vectors\<close> before it derives the indices. For a document whose entry has no
  \<^verbatim>\<open>name\<close> the call raises KeyError and the registry holds the new table.
\<close>

theorem load_x_vectors_partial_counterexample:
  "fst (load_x_vectors_file (cpython seed0) example_fs init_registry ''nameless.json'') =
     Inl (KeyError ''name'') \<and>
   snd (load_x_vectors_file (cpython seed0) example_fs init_registry ''nameless.json'') =
     init_registry\<lparr>x_vectors := nameless_table\<rparr> \<and>
   init_registry\<lparr>x_vectors := nameless_table\<rparr> \<noteq> init_registry"
  by (simp add: load_x_vectors_file_def load_json_def example_fs_def speaker_index_def
      nameless_table_def init_registry_def)

text \<open>Once the speaker index has been derived, deriving the clip index cannot fail.\<close>

lemma clip_index_succeeds:
  assumes "interpreter_ok py" and "py_values table = Inr entries"
  shows "\<exists>clips. clip_index py table = Inr clips"
proof (cases table)
  case (JObj kvs)
  from assms(1) obtain ys where
    "py_list_set py (map JStr (sort (map fst kvs))) = Inr (map JStr ys)"
    unfolding interpreter_ok_def by blast
  moreover have "py_sorted py (map JStr (map fst kvs)) = Inr (map JStr (sort (map fst kvs)))"
    using assms(1) unfolding interpreter_ok_def by blast
  ultimately show ?thesis
    using JObj by (simp add: clip_index_def list_set_sorted_def)
qed (use assms(2) in simp_all)

text \<open>
  Claim C2, amended. A failing \<^verbatim>\<open>load_ids_file\<close> leaves the registry as it was. A
  failing \<^verbatim>\<open>load_x_vectors_file\<close> leaves it as it was when the file could not be
  read or parsed; when the file was parsed and the failure came afterwards, the
  x-vector table is the parsed document and the other fields are as they were.
\<close>

theorem load_failure_state:
  assumes "interpreter_ok py"
  shows "(fst (load_ids_file fs self path) = Inl e \<longrightarrow>
            snd (load_ids_file fs self path) = self) \<and>
         (fst (load_x_vectors_file py fs self path) = Inl e \<longrightarrow>
            load_json fs path = Inl e \<and> snd (load_x_vectors_file py fs self path) = self \<or>
            (\<exists>doc. load_json fs path = Inr doc \<and>
               snd (load_x_vectors_file py fs self path) = self\<lparr>x_vectors := doc\<rparr>))"
proof -
  have ids: "snd (load_ids_file fs self path) = self"
    if "fst (load_ids_file fs self path) = Inl e"
    using that by (simp add: load_ids_file_def split: sum.splits)
  have xv: "load_json fs path = Inl e \<and> snd (load_x_vectors_file py fs self path) = self \<or>
      (\<exists>doc. load_json fs path = Inr doc \<and>
         snd (load_x_vectors_file py fs self path) = self\<lparr>x_vectors := doc\<rparr>)"
    if fails: "fst (load_x_vectors_file py fs self path) = Inl e"
  proof (cases "load_json fs path")
    case (Inl e')
    with fails show ?thesis by (simp add: load_x_vectors_file_def)
  next
    case (Inr doc)
    show ?thesis
    proof (cases "speaker_index py doc")
      case (Inl e')
      with Inr show ?thesis by (simp add: load_x_vectors_file_def)
    next
      case names: (Inr names)
      then obtain entries where "py_values doc = Inr entries"
        by (auto simp: speaker_index_def split: sum.splits)
      with assms obtain clips where "clip_index py doc = Inr clips"
        using clip_index_succeeds by blast
      with Inr names fails show ?thesis
        by (simp add: load_x_vectors_file_def)
    qed
  qed
  show ?thesis using ids xv by blast
qed

theorem load_failure_state_witness:
  "load_ids_file example_fs example_registry ''missing.json'' = (Inl OSError, example_registry) \<and>
   load_ids_file example_fs example_registry ''broken.json'' =
     (Inl JSONDecodeError, example_registry) \<and>
   load_x_vectors_file (cpython seed0) example_fs example_registry ''broken.json'' =
     (Inl JSONDecodeError, example_registry) \<and>
   load_x_vectors_file (cpython seed0) example_fs example_registry ''nameless.json'' =
     (Inl (KeyError ''name''), example_registry\<lparr>x_vectors := nameless_table\<rparr>)"
proof -
  have a: "fst (load_ids_file example_fs example_registry ''missing.json'') = Inl OSError"
    by (simp add: load_ids_file_def load_json_def example_fs_def)
  have b: "fst (load_ids_file example_fs example_registry ''broken.json'') = Inl JSONDecodeError"
    by (simp add: load_ids_file_def load_json_def example_fs_def)
  have c: "fst (load_x_vectors_file (cpython seed0) example_fs example_registry ''broken.json'') =
      Inl JSONDecodeError"
    by (simp add: load_x_vectors_file_def load_json_def example_fs_def)
  have d: "fst (load_x_vectors_file (cpython seed0) example_fs example_registry ''nameless.json'') =
      Inl (KeyError ''name'')"
    by (simp add: load_x_vectors_file_def load_json_def example_fs_def speaker_index_def
        nameless_table_def)
  have docs: "load_json example_fs ''nameless.json'' = Inr nameless_table"
    "load_json example_fs ''broken.json'' = Inl JSONDecodeError"
    by (simp_all add: load_json_def example_fs_def)
  show ?thesis
    using load_failure_state [OF cpython_seed0_ok, of example_fs example_registry
        "''missing.json''" OSError] a
      load_failure_state [OF cpython_seed0_ok, of example_fs example_registry
        "''broken.json''" JSONDecodeError] b c
      load_failure_state [OF cpython_seed0_ok, of example_fs example_registry
        "''nameless.json''" "KeyError ''name''"] d docs
    by (simp add: prod_eq_iff)
qed

subsection \<open>The indices a load derives\<close>

text \<open>
  What holds for every interpreter: after a successful load of a table whose names are
  strings, the speaker index lists each name of the table once and the clip index
  lists each clip id once. Nothing fixes their order.
\<close>

lemma load_x_vectors_indices:
  assumes "interpreter_ok py"
    and "load_json fs path = Inr (JObj kvs)"
    and "entry_names (map snd kvs) = Inr (map JStr names)"
  shows "\<exists>speakers clips.
           load_x_vectors_file py fs self path =
             (Inr (), \<lparr>x_vectors = JObj kvs, speaker_ids = JArr (map JStr speakers),
                       clip_ids = JArr (map JStr clips)\<rparr>) \<and>
           distinct speakers \<and> set speakers = set names \<and>
           distinct clips \<and> set clips = set (map fst kvs)"
proof -
  have sorted: "py_sorted py (map JStr xs) = Inr (map JStr (sort xs))" for xs
    using assms(1) unfolding interpreter_ok_def by blast
  have listed: "\<exists>ys. py_list_set py (map JStr xs) = Inr (map JStr ys) \<and>
      distinct ys \<and> set ys = set xs" for xs
    using assms(1) unfolding interpreter_ok_def by blast
  from listed [of "sort names"] obtain speakers where
    sp: "py_list_set py (map JStr (sort names)) = Inr (map JStr speakers)"
      "distinct speakers" "set speakers = set names"
    by auto
  from listed [of "sort (map fst kvs)"] obtain clips where
    cl: "py_list_set py (map JStr (sort (map fst kvs))) = Inr (map JStr clips)"
      "distinct clips" "set clips = set (map fst kvs)"
    by auto
  have "speaker_index py (JObj kvs) = Inr (map JStr speakers)"
    using assms(3) sorted [of names] sp(1) by (simp add: speaker_index_def list_set_sorted_def)
  moreover have "clip_index py (JObj kvs) = Inr (map JStr clips)"
    using sorted [of "map fst kvs"] cl(1) by (simp add: clip_index_def list_set_sorted_def)
  ultimately have "load_x_vectors_file py fs self path =
      (Inr (), \<lparr>x_vectors = JObj kvs, speaker_ids = JArr (map JStr speakers),
                clip_ids = JArr (map JStr clips)\<rparr>)"
    using assms(2) by (simp add: load_x_vectors_file_def)
  with sp(2,3) cl(2,3) show ?thesis by blast
qed

text \<open>
  Claim C1, evaluated where it fails. The source sorts the names and then passes them
  through \<^verbatim>\<open>set\<close>, which forgets the order. Under hash seed 0 the table of speakers
  \<open>A\<close> and \<open>B\<close> with clips \<open>c1.wav\<close> and \<open>c2.wav\<close> loads with the speaker index
  \<open>B, A\<close> and the clip index \<open>c2.wav, c1.wav\<close>: without duplicates, but not in
  ascending order.
\<close>

theorem load_x_vectors_indices_unsorted:
  "load_x_vectors_file (cpython seed0) example_fs init_registry ''x_vectors.json'' =
     (Inr (), \<lparr>x_vectors = two_speaker_table,
               speaker_ids = JArr [JStr ''B'', JStr ''A''],
               clip_ids = JArr [JStr ''c2.wav'', JStr ''c1.wav'']\<rparr>) \<and>
   \<not> sorted [''B'', ''A''] \<and> \<not> sorted [''c2.wav'', ''c1.wav'']"
  by (simp add: load_x_vectors_file_def load_json_def example_fs_def two_speaker_table_def
      speaker_index_def clip_index_def list_set_sorted_def cpython_def on_strings_def seed0_def
      init_registry_def)

subsection \<open>Saving and loading again\<close>

lemma save_load_ids_roundtrip:
  assumes "writable fs path"
  shows "load_ids_file (snd (save_ids_file fs self path)) self' path =
           (Inr (), self'\<lparr>speaker_ids := speaker_ids self\<rparr>)"
  using assms by (simp add: save_ids_file_def save_json_def load_ids_file_def load_json_def)

lemma save_load_x_vectors_roundtrip:
  assumes "writable fs path"
  shows "x_vectors
           (snd (load_x_vectors_file py (snd (save_x_vectors_file fs self path)) self' path)) =
         x_vectors self"
  using assms
  by (simp add: save_x_vectors_file_def save_json_def load_x_vectors_file_def load_json_def
      Let_def split: sum.splits)

lemma loaded_registry_eq:
  "loaded_registry =
     \<lparr>x_vectors = two_speaker_table,
      speaker_ids = JArr [JStr ''B'', JStr ''A''],
      clip_ids = JArr [JStr ''c2.wav'', JStr ''c1.wav'']\<rparr>"
  by (simp add: loaded_registry_def load_x_vectors_file_def load_json_def example_fs_def
      two_speaker_table_def speaker_index_def clip_index_def list_set_sorted_def cpython_def
      on_strings_def seed0_def init_registry_def)

text \<open>
  Claim C6, evaluated where it fails. Saving the id mapping and loading it again gives
  the same mapping, and saving the table and loading it again gives the same table
  (the two lemmas above). The indices derived by the second load are not sorted: for
  the registry that holds the two-speaker table, saving it to \<open>copy.json\<close> and loading
  that file under hash seed 0 gives the same table with the speaker index \<open>B, A\<close> and
  the clip index \<open>c2.wav, c1.wav\<close>.
\<close>

theorem save_load_x_vectors_unsorted:
  "fst (save_x_vectors_file example_fs loaded_registry ''copy.json'') = Inr () \<and>
   load_x_vectors_file (cpython seed0)
       (snd (save_x_vectors_file example_fs loaded_registry ''copy.json''))
       loaded_registry ''copy.json'' =
     (Inr (), \<lparr>x_vectors = x_vectors loaded_registry,
               speaker_ids = JArr [JStr ''B'', JStr ''A''],
               clip_ids = JArr [JStr ''c2.wav'', JStr ''c1.wav'']\<rparr>) \<and>
   \<not> sorted [''B'', ''A''] \<and> \<not> sorted [''c2.wav'', ''c1.wav'']"
  by (simp add: loaded_registry_eq save_x_vectors_file_def save_json_def
      load_x_vectors_file_def load_json_def example_fs_def two_speaker_table_def
      speaker_index_def clip_index_def list_set_sorted_def cpython_def on_strings_def seed0_def)

section \<open>Properties of the mean x-vector\<close>

subsection \<open>The numpy mean, column by column\<close>

lemma foldl_vec_add:
  "length a = d \<Longrightarrow> \<forall>r\<in>set rows. length r = d \<Longrightarrow>
   length (foldl vec_add a rows) = d \<and>
   (\<forall>i<d. foldl vec_add a rows ! i = a ! i + (\<Sum>r\<leftarrow>rows. r ! i))"
proof (induction rows arbitrary: a)
  case Nil
  then show ?case by simp
next
  case (Cons r rows)
  have len: "length (vec_add a r) = d"
    using Cons.prems by (simp add: vec_add_def)
  have nth: "\<forall>i<d. vec_add a r ! i = a ! i + r ! i"
    using Cons.prems by (simp add: vec_add_def)
  have rest: "\<forall>r\<in>set rows. length r = d"
    using Cons.prems by simp
  from Cons.IH [OF len rest] nth show ?case
    by (simp add: add.assoc)
qed

lemma np_stack_mean_columns:
  assumes "vs \<noteq> []" and "\<forall>v\<in>set vs. \<exists>r. as_vector v = Some r \<and> length r = d"
  shows "\<exists>m. np_stack_mean vs = Inr m \<and> length m = d \<and>
           (\<forall>i<d. m ! i = (\<Sum>v\<leftarrow>vs. the (as_vector v) ! i) / real (length vs))"
proof -
  define rows where "rows = map (the \<circ> as_vector) vs"
  have all_vec: "list_all (\<lambda>v. as_vector v \<noteq> None) vs"
    using assms(2) by (auto simp: list_all_iff)
  have rows_len: "\<forall>r\<in>set rows. length r = d"
    using assms(2) by (auto simp: rows_def)
  have "rows \<noteq> []"
    using assms(1) by (simp add: rows_def)
  then obtain a rest where rows_eq: "rows = a # rest"
    by (cases rows) auto
  have a_len: "length a = d" and rest_len: "\<forall>r\<in>set rest. length r = d"
    using rows_len rows_eq by auto
  have same: "list_all (\<lambda>r. length r = length (hd rows)) rows"
    using rows_len rows_eq by (auto simp: list_all_iff)
  define total where "total = foldl vec_add a rest"
  have total: "length total = d" "\<forall>i<d. total ! i = a ! i + (\<Sum>r\<leftarrow>rest. r ! i)"
    using foldl_vec_add [OF a_len rest_len] by (simp_all add: total_def)
  have res: "np_stack_mean vs = Inr (map (\<lambda>x. x / real (length rows)) total)"
    using assms(1) all_vec same rows_eq
    by (simp add: np_stack_mean_def rows_def [symmetric] total_def Let_def)
  have cols: "\<forall>i<d. total ! i = (\<Sum>v\<leftarrow>vs. the (as_vector v) ! i)"
  proof (intro allI impI)
    fix i assume "i < d"
    have "(\<Sum>v\<leftarrow>vs. the (as_vector v) ! i) = (\<Sum>r\<leftarrow>rows. r ! i)"
      by (simp add: rows_def comp_def)
    also have "\<dots> = a ! i + (\<Sum>r\<leftarrow>rest. r ! i)"
      by (simp add: rows_eq)
    finally show "total ! i = (\<Sum>v\<leftarrow>vs. the (as_vector v) ! i)"
      using total(2) \<open>i < d\<close> by simp
  qed
  have "length rows = length vs" by (simp add: rows_def)
  with res total(1) cols show ?thesis by simp
qed

lemma np_stack_mean_single:
  "as_vector v = Some r \<Longrightarrow> np_stack_mean [v] = Inr r"
  by (simp add: np_stack_mean_def)

lemma np_stack_mean_not_assertion: "np_stack_mean vs \<noteq> Inl (AssertionError msg)"
  by (simp add: np_stack_mean_def Let_def)

subsection \<open>The list comprehension does not touch the registry\<close>

lemma get_x_vectors_by_speaker_frame: "snd (get_x_vectors_by_speaker self s) = self"
  by (simp add: get_x_vectors_by_speaker_def split: sum.splits)

lemma by_speaker_eq:
  "fst (get_x_vectors_by_speaker self speaker_idx) = Inr V \<Longrightarrow>
   get_x_vectors_by_speaker self speaker_idx = (Inr V, self)"
  using get_x_vectors_by_speaker_frame [of self speaker_idx]
  by (cases "get_x_vectors_by_speaker self speaker_idx") simp

lemma example_speaker_A:
  "fst (get_x_vectors_by_speaker example_registry ''A'') =
     Inr [JArr [JNum 1, JNum 0], JArr [JNum 3, JNum 0]]"
  by (simp add: get_x_vectors_by_speaker_def example_registry_def example_table_def)

lemma example_speaker_B:
  "fst (get_x_vectors_by_speaker example_registry ''B'') = Inr [JArr [JNum 5, JNum 7]]"
  by (simp add: get_x_vectors_by_speaker_def example_registry_def example_table_def)

lemma example_speaker_C:
  "fst (get_x_vectors_by_speaker example_registry ''C'') = Inr []"
  by (simp add: get_x_vectors_by_speaker_def example_registry_def example_table_def)

subsection \<open>Mean over all entries of a speaker\<close>

text \<open>
  Claim C4. Let \<open>V\<close> be what \<^verbatim>\<open>get_x_vectors_by_speaker\<close> returns for a speaker.
  With \<^verbatim>\<open>num_samples\<close> unset, and whatever \<^verbatim>\<open>randomize\<close> is,
  \<^verbatim>\<open>get_mean_x_vector\<close> returns the element-wise arithmetic mean of all vectors of
  \<open>V\<close> when \<open>V\<close> is not empty (its embeddings being vectors of one dimension \<open>d\<close>);
  for a speaker with exactly one entry it returns that entry's embedding; for a
  speaker with no entry the call fails (numpy refuses to stack an empty sequence).
  The registry is the same afterwards.
\<close>

theorem mean_of_all:
  assumes "fst (get_x_vectors_by_speaker self speaker_idx) = Inr V"
  shows "(V \<noteq> [] \<and> (\<forall>v\<in>set V. \<exists>r. as_vector v = Some r \<and> length r = d) \<longrightarrow>
            (\<exists>m. get_mean_x_vector rng self speaker_idx None randomize = (Inr m, self) \<and>
               length m = d \<and>
               (\<forall>i<d. m ! i = (\<Sum>v\<leftarrow>V. the (as_vector v) ! i) / real (length V)))) \<and>
         (\<forall>v r. V = [v] \<and> as_vector v = Some r \<longrightarrow>
            get_mean_x_vector rng self speaker_idx None randomize = (Inr r, self)) \<and>
         (V = [] \<longrightarrow>
            get_mean_x_vector rng self speaker_idx None randomize = (Inl ValueError, self))"
proof -
  have V: "get_x_vectors_by_speaker self speaker_idx = (Inr V, self)"
    using assms by (rule by_speaker_eq)
  have call: "get_mean_x_vector rng self speaker_idx None randomize = (np_stack_mean V, self)"
    using V by (simp add: get_mean_x_vector_def)
  have all: "\<exists>m. np_stack_mean V = Inr m \<and> length m = d \<and>
      (\<forall>i<d. m ! i = (\<Sum>v\<leftarrow>V. the (as_vector v) ! i) / real (length V))"
    if "V \<noteq> []" "\<forall>v\<in>set V. \<exists>r. as_vector v = Some r \<and> length r = d"
    using that by (rule np_stack_mean_columns)
  have one: "np_stack_mean V = Inr r" if "V = [v]" "as_vector v = Some r" for v r
    using that by (simp add: np_stack_mean_single)
  have none: "np_stack_mean V = Inl ValueError" if "V = []"
    using that by (simp add: np_stack_mean_def)
  show ?thesis
    unfolding call using all one none by simp
qed

theorem mean_of_all_witness:
  "get_mean_x_vector (\<lambda>i. 0) example_registry ''A'' None False = (Inr [2, 0], example_registry) \<and>
   get_mean_x_vector (\<lambda>i. 0) example_registry ''B'' None False = (Inr [5, 7], example_registry) \<and>
   get_mean_x_vector (\<lambda>i. 0) example_registry ''C'' None False =
     (Inl ValueError, example_registry)"
proof -
  let ?V = "[JArr [JNum 1, JNum 0], JArr [JNum 3, JNum 0]]"
  have vec: "\<forall>v\<in>set ?V. \<exists>r. as_vector v = Some r \<and> length r = 2"
    by simp
  from mean_of_all [OF example_speaker_A, of 2 "\<lambda>i. 0" False] vec obtain m where
    m: "get_mean_x_vector (\<lambda>i. 0) example_registry ''A'' None False = (Inr m, example_registry)"
       "length m = 2" "\<forall>i<2. m ! i = (\<Sum>v\<leftarrow>?V. the (as_vector v) ! i) / real (length ?V)"
    by auto
  have "m ! 0 = 2" using m(3) [rule_format, of 0] by simp
  moreover have "m ! 1 = 0" using m(3) [rule_format, of 1] by simp
  ultimately have "m = [2, 0]" using m(2)
    by (auto simp: list_eq_iff_nth_eq less_Suc_eq numeral_2_eq_2)
  with m(1) mean_of_all [OF example_speaker_B, of 2 "\<lambda>i. 0" False]
    mean_of_all [OF example_speaker_C, of 2 "\<lambda>i. 0" False]
  show ?thesis by simp
qed

subsection \<open>Mean over the first entries\<close>

text \<open>
  Claim C5. For \<open>1 \<le> k \<le> len(V)\<close>, \<^verbatim>\<open>get_mean_x_vector(s, num_samples=k,
  randomize=False)\<close> returns the element-wise arithmetic mean of the first \<open>k\<close>
  embeddings of \<open>V\<close> in their stored order (these being vectors of one dimension
  \<open>d\<close>). The random generator plays no part and the registry is left as it was, so a
  second call on the state left by the first returns the same result.
\<close>

theorem mean_of_first_k:
  assumes "fst (get_x_vectors_by_speaker self speaker_idx) = Inr V"
    and "1 \<le> k" and "k \<le> int (length V)"
    and "\<forall>v\<in>set (take (nat k) V). \<exists>r. as_vector v = Some r \<and> length r = d"
  shows "\<exists>m. get_mean_x_vector rng self speaker_idx (Some k) False = (Inr m, self) \<and>
           length m = d \<and>
           (\<forall>i<d. m ! i = (\<Sum>v\<leftarrow>take (nat k) V. the (as_vector v) ! i) / real_of_int k) \<and>
           get_mean_x_vector rng' (snd (get_mean_x_vector rng self speaker_idx (Some k) False))
             speaker_idx (Some k) False = (Inr m, self)"
proof -
  have V: "get_x_vectors_by_speaker self speaker_idx = (Inr V, self)"
    using assms(1) by (rule by_speaker_eq)
  have call: "get_mean_x_vector g self speaker_idx (Some k) False =
      (np_stack_mean (take (nat k) V), self)" for g
    using V assms(2,3) by (simp add: get_mean_x_vector_def slice_to_def)
  have ne: "take (nat k) V \<noteq> []"
    using assms(2,3) by auto
  have len: "length (take (nat k) V) = nat k"
    using assms(3) by simp
  from np_stack_mean_columns [OF ne assms(4)] obtain m where
    m: "np_stack_mean (take (nat k) V) = Inr m" "length m = d"
      "\<forall>i<d. m ! i =
         (\<Sum>v\<leftarrow>take (nat k) V. the (as_vector v) ! i) / real (length (take (nat k) V))"
    by blast
  have "real (length (take (nat k) V)) = real_of_int k"
    using len assms(2) by simp
  with m call show ?thesis by simp
qed

theorem mean_of_first_k_witness:
  "get_mean_x_vector (\<lambda>i. 0) example_registry ''A'' (Some 2) False =
     (Inr [2, 0], example_registry) \<and>
   get_mean_x_vector (\<lambda>i. i)
     (snd (get_mean_x_vector (\<lambda>i. 0) example_registry ''A'' (Some 2) False)) ''A'' (Some 2) False =
     (Inr [2, 0], example_registry)"
proof -
  let ?V = "[JArr [JNum 1, JNum 0], JArr [JNum 3, JNum 0]]"
  have vec: "\<forall>v\<in>set (take (nat 2) ?V). \<exists>r. as_vector v = Some r \<and> length r = 2"
    by simp
  from mean_of_first_k [OF example_speaker_A _ _ vec, of "\<lambda>i. 0" "\<lambda>i. i"] obtain m where
    m: "get_mean_x_vector (\<lambda>i. 0) example_registry ''A'' (Some 2) False =
          (Inr m, example_registry)"
       "length m = 2"
       "\<forall>i<2. m ! i = (\<Sum>v\<leftarrow>take (nat 2) ?V. the (as_vector v) ! i) / real_of_int 2"
       "get_mean_x_vector (\<lambda>i. i)
          (snd (get_mean_x_vector (\<lambda>i. 0) example_registry ''A'' (Some 2) False)) ''A'' (Some 2)
          False = (Inr m, example_registry)"
    by auto
  have "m ! 0 = 2" using m(3) [rule_format, of 0] by simp
  moreover have "m ! 1 = 0" using m(3) [rule_format, of 1] by simp
  ultimately have "m = [2, 0]" using m(2)
    by (auto simp: list_eq_iff_nth_eq less_Suc_eq numeral_2_eq_2)
  with m(1,4) show ?thesis by simp
qed

subsection \<open>Asking for more samples than there are\<close>

text \<open>
  Claim C8. When \<open>k\<close> exceeds the number of vectors \<^verbatim>\<open>get_x_vectors_by_speaker\<close>
  returns for the speaker, \<^verbatim>\<open>get_mean_x_vector(s, num_samples=k)\<close> fails, for either
  value of \<^verbatim>\<open>randomize\<close>, with the assertion error whose message names the speaker
  and the requested count; the result is not the mean over the vectors that are
  there.
\<close>

theorem mean_fails_on_shortfall:
  assumes "fst (get_x_vectors_by_speaker self speaker_idx) = Inr V"
    and "int (length V) < k"
  shows "get_mean_x_vector rng self speaker_idx (Some k) randomize =
           (Inl (AssertionError
              ('' [!] speaker '' @ speaker_idx @ '' has number of samples < '' @ str_int k)),
            self) \<and>
         fst (get_mean_x_vector rng self speaker_idx (Some k) randomize) \<noteq> np_stack_mean V"
proof -
  have "get_x_vectors_by_speaker self speaker_idx = (Inr V, self)"
    using assms(1) by (rule by_speaker_eq)
  then have "get_mean_x_vector rng self speaker_idx (Some k) randomize =
      (Inl (AssertionError (shortfall_message speaker_idx k)), self)"
    using assms(2) by (simp add: get_mean_x_vector_def)
  then show ?thesis
    using np_stack_mean_not_assertion [of V]
    by (simp add: shortfall_message_def) metis
qed

theorem mean_fails_on_shortfall_witness:
  "get_mean_x_vector (\<lambda>i. 0) example_registry ''A'' (Some 3) True =
     (Inl (AssertionError '' [!] speaker A has number of samples < 3''), example_registry) \<and>
   get_mean_x_vector (\<lambda>i. 0) example_registry ''A'' (Some 3) False =
     (Inl (AssertionError '' [!] speaker A has number of samples < 3''), example_registry)"
proof -
  let ?V = "[JArr [JNum 1, JNum 0], JArr [JNum 3, JNum 0]]"
  have k: "int (length ?V) < 3" by simp
  have s: "str_int 3 = ''3''" by (simp add: str_int_def str_nat.simps)
  show ?thesis
    using mean_fails_on_shortfall [OF example_speaker_A k, of "\<lambda>i. 0" True]
      mean_fails_on_shortfall [OF example_speaker_A k, of "\<lambda>i. 0" False] s
    by simp
qed

section \<open>Queries and the registry\<close>

text \<open>
  Claim C10. The query operations \<^verbatim>\<open>get_x_vector_by_clip\<close>,
  \<^verbatim>\<open>get_x_vectors_by_speaker\<close>, \<^verbatim>\<open>get_mean_x_vector\<close> (any arguments, also
  \<^verbatim>\<open>randomize=True\<close>), \<^verbatim>\<open>get_speakers\<close>, \<^verbatim>\<open>get_clips\<close> and the properties
  \<^verbatim>\<open>num_speakers\<close> and \<^verbatim>\<open>x_vector_dim\<close> leave every field of the registry as it
  was, whether they return a result or raise.
\<close>

theorem queries_leave_registry_unchanged:
  "snd (get_x_vector_by_clip self clip_idx) = self \<and>
   snd (get_x_vectors_by_speaker self speaker_idx) = self \<and>
   snd (get_mean_x_vector rng self speaker_idx num_samples randomize) = self \<and>
   snd (get_speakers self) = self \<and>
   snd (get_clips self) = self \<and>
   snd (num_speakers self) = self \<and>
   snd (x_vector_dim self) = self"
proof -
  have by_speaker: "snd (get_x_vectors_by_speaker self speaker_idx) = self"
    by (rule get_x_vectors_by_speaker_frame)
  have mean: "snd (get_mean_x_vector rng self speaker_idx num_samples randomize) = self"
  proof (cases "get_x_vectors_by_speaker self speaker_idx")
    case (Pair r self')
    with by_speaker have "self' = self" by simp
    with Pair show ?thesis
      by (simp add: get_mean_x_vector_def split: sum.splits option.splits)
  qed
  have clip: "snd (get_x_vector_by_clip self clip_idx) = self"
    by (simp add: get_x_vector_by_clip_def split: sum.splits)
  have clips: "snd (get_clips self) = self"
    by (simp add: get_clips_def split: sum.splits)
  have dim: "snd (x_vector_dim self) = self"
    by (simp add: x_vector_dim_def split: sum.splits list.splits)
  show ?thesis
    using by_speaker mean clip clips dim
    by (simp add: get_speakers_def num_speakers_def)
qed

theorem queries_leave_registry_unchanged_witness:
  "snd (get_x_vector_by_clip example_registry ''c1.wav'') = example_registry \<and>
   snd (get_x_vector_by_clip example_registry ''missing.wav'') = example_registry \<and>
   snd (get_mean_x_vector (\<lambda>i. i) example_registry ''A'' (Some 2) True) = example_registry \<and>
   snd (x_vector_dim init_registry) = init_registry"
  using queries_leave_registry_unchanged
      [of example_registry "''c1.wav''" "''A''" "\<lambda>i. i" "Some 2" True]
    queries_leave_registry_unchanged [of example_registry "''missing.wav''"]
    queries_leave_registry_unchanged [of init_registry]
  by simp

section \<open>Embeddings of several clips\<close>

lemma sum_clips_acc:
  assumes "\<forall>p\<in>set ps. \<exists>v. compute p = Inr v \<and> length v = d" and "length acc = d"
  shows "\<exists>t. sum_clips compute ps (Some acc) = Inr (Some t) \<and> length t = d \<and>
           (\<forall>i<d. t ! i = acc ! i + (\<Sum>p\<leftarrow>ps. projr (compute p) ! i))"
  using assms
proof (induction ps arbitrary: acc)
  case Nil
  then show ?case by simp
next
  case (Cons p ps)
  from Cons.prems(1) obtain v where v: "compute p = Inr v" "length v = d"
    by auto
  have step: "tensor_iadd acc v = Inr (vec_add acc v)"
    using v(2) Cons.prems(2) by (simp add: tensor_iadd_def)
  have len: "length (vec_add acc v) = d"
    using v(2) Cons.prems(2) by (simp add: vec_add_def)
  have nth: "\<forall>i<d. vec_add acc v ! i = acc ! i + v ! i"
    using v(2) Cons.prems(2) by (simp add: vec_add_def)
  have rest: "\<forall>p\<in>set ps. \<exists>v. compute p = Inr v \<and> length v = d"
    using Cons.prems(1) by simp
  from Cons.IH [OF rest len] obtain t where
    t: "sum_clips compute ps (Some (vec_add acc v)) = Inr (Some t)" "length t = d"
       "\<forall>i<d. t ! i = vec_add acc v ! i + (\<Sum>p\<leftarrow>ps. projr (compute p) ! i)"
    by blast
  have "sum_clips compute (p # ps) (Some acc) = Inr (Some t)"
    using v(1) step t(1) by simp
  moreover have "\<forall>i<d. t ! i = acc ! i + (\<Sum>p\<leftarrow>p # ps. projr (compute p) ! i)"
    using t(3) nth v(1) by (simp add: add.assoc)
  ultimately show ?case using t(2) by blast
qed

text \<open>
  Claim C7. For a non-empty list of audio paths, each of which the encoder maps to an
  embedding of dimension \<open>d\<close>, \<^verbatim>\<open>compute_x_vector_from_clip\<close> on the list returns
  the element-wise arithmetic mean of what it returns on the single paths. The
  encoder and the feature pipeline are one fixed function of the path.
\<close>

theorem clip_list_mean:
  assumes "ps \<noteq> []"
    and "\<forall>p\<in>set ps. \<exists>v. compute_x_vector_from_clip compute (Path p) = Inr v \<and> length v = d"
  shows "\<exists>m. compute_x_vector_from_clip compute (Paths ps) = Inr m \<and> length m = d \<and>
           (\<forall>i<d. m ! i =
              (\<Sum>p\<leftarrow>ps. projr (compute_x_vector_from_clip compute (Path p)) ! i)
                / real (length ps))"
proof -
  from assms(1) obtain p rest where ps: "ps = p # rest"
    by (cases ps) auto
  have each: "\<forall>p\<in>set ps. \<exists>v. compute p = Inr v \<and> length v = d"
    using assms(2) by simp
  then obtain v where v: "compute p = Inr v" "length v = d"
    using ps by auto
  have rest: "\<forall>p\<in>set rest. \<exists>v. compute p = Inr v \<and> length v = d"
    using each ps by simp
  from sum_clips_acc [OF rest v(2)] obtain t where
    t: "sum_clips compute rest (Some v) = Inr (Some t)" "length t = d"
       "\<forall>i<d. t ! i = v ! i + (\<Sum>p\<leftarrow>rest. projr (compute p) ! i)"
    by blast
  have loop: "sum_clips compute ps None = Inr (Some t)"
    using ps v(1) t(1) by simp
  have res: "compute_x_vector_from_clip compute (Paths ps) =
      Inr (map (\<lambda>x. x / real (length ps)) t)"
    using loop by simp
  have "\<forall>i<d. t ! i = (\<Sum>p\<leftarrow>ps. projr (compute p) ! i)"
    using t(3) ps v(1) by simp
  with res t(2) show ?thesis by simp
qed

theorem clip_list_mean_witness:
  "compute_x_vector_from_clip example_encoder (Paths [''a.wav'', ''b.wav'']) = Inr [2, 2] \<and>
   compute_x_vector_from_clip example_encoder (Path ''a.wav'') = Inr [1, 4] \<and>
   compute_x_vector_from_clip example_encoder (Path ''b.wav'') = Inr [3, 0]"
proof -
  let ?ps = "[''a.wav'', ''b.wav'']"
  have ne: "?ps \<noteq> []" by simp
  have each: "\<forall>p\<in>set ?ps. \<exists>v. compute_x_vector_from_clip example_encoder (Path p) = Inr v \<and>
      length v = 2"
    by (simp add: example_encoder_def)
  from clip_list_mean [OF ne each] obtain m where
    m: "compute_x_vector_from_clip example_encoder (Paths ?ps) = Inr m" "length m = 2"
       "\<forall>i<2. m ! i =
          (\<Sum>p\<leftarrow>?ps. projr (compute_x_vector_from_clip example_encoder (Path p)) ! i)
            / real (length ?ps)"
    by blast
  have "m ! 0 = 2" using m(3) [rule_format, of 0] by (simp add: example_encoder_def)
  moreover have "m ! 1 = 2" using m(3) [rule_format, of 1] by (simp add: example_encoder_def)
  ultimately have "m = [2, 2]" using m(2)
    by (auto simp: list_eq_iff_nth_eq less_Suc_eq numeral_2_eq_2)
  with m(1) show ?thesis by (simp add: example_encoder_def)
qed

end
